theory Spec2Isabelle
  imports Complex_Main
begin

section \<open>The ATM ledger engine of AtmProgram.py\<close>

text \<open>
  A shallow embedding of class \<open>ATMSystem\<close>. Every method becomes a function that takes
  the object's state and returns its result together with the new state. A raised
  exception is the value \<open>Raise e\<close>, a normal return is \<open>Return v\<close>; the state is
  returned in both cases, since Python undoes nothing when an exception leaves a method.

  Conventions of the model:
  \<^item> \<open>Decimal\<close> values are finite and arithmetic on them is exact, so they are rational
    numbers (no NaN or Infinity, no rounding to the context precision of 28 digits).
  \<^item> \<open>datetime\<close> values are seconds on the wall clock, \<open>date\<close> values are day numbers.
  \<^item> \<open>datetime.now()\<close> and \<open>date.today()\<close> are parameters \<open>now\<close> and \<open>today\<close> of
    each method; all readings inside one call return the same value.
  \<^item> \<open>hashlib.sha256(...).hexdigest()\<close> is a parameter \<open>sha256\<close>: nothing is assumed
    about it.
  \<^item> Strings are byte strings; \<open>strip\<close> and \<open>upper\<close> are modelled on ASCII.
  \<^item> \<open>authenticate\<close> returns its boolean together with the line it prints on the
    console, which tells its three ways of returning \<open>False\<close> apart.
  \<^item> The logger only writes to a file and is left out.
\<close>

subsection \<open>Data\<close>

type_synonym decimal = rat
type_synonym datetime = rat
type_synonym date = int

text \<open>\<open>current_user\<close> is an \<open>Optional[str]\<close> and is used as a dictionary key as it is
  (\<open>None\<close> is hashable), so the dictionaries indexed by it have keys of that type.\<close>

type_synonym key = "string option"

record transaction =
  timestamp :: datetime
  ttype :: string
  amount :: decimal
  balance_after :: decimal
  recipient :: "string option"

record account =
  password_hash :: string
  saldo :: decimal

record atm_state =
  daily_totals :: "key \<rightharpoonup> (string \<rightharpoonup> (date \<rightharpoonup> decimal))"
  accounts :: "key \<rightharpoonup> account"
  transaction_history :: "key \<rightharpoonup> transaction list"
  failed_attempts :: "string \<rightharpoonup> (int \<times> datetime)"
  session_active :: bool
  current_user :: "string option"

datatype exn = SecurityError | KeyError

datatype 'a outcome = Raise exn | Return 'a

text \<open>The second component of the tuples the methods return, by its text:
  \<^item> \<open>Amount_must_be_positive\<close>: "Amount must be positive"
  \<^item> \<open>Amount_must_be_in_multiples\<close>: "Amount must be in multiples of 50,000"
  \<^item> \<open>Insufficient_funds\<close>: "Insufficient funds"
  \<^item> \<open>Daily_withdrawal_limit_exceeded\<close>: "Daily withdrawal limit (Rp5,000,000) exceeded"
  \<^item> \<open>Successfully_withdrawn a\<close>: "Successfully withdrawn Rp\<open>a\<close>"
  \<^item> \<open>Successfully_deposited a\<close>: "Successfully deposited Rp\<open>a\<close>"
  \<^item> \<open>Recipient_account_not_found\<close>: "Recipient account not found"
  \<^item> \<open>Cannot_transfer_to_your_own_account\<close>: "Cannot transfer to your own account"
  \<^item> \<open>Successfully_transferred a r\<close>: "Successfully transferred Rp\<open>a\<close> to \<open>r\<close>"
  \<^item> \<open>Incorrect_old_PIN\<close>: "Incorrect old PIN"
  \<^item> \<open>PIN_successfully_changed\<close>: "PIN successfully changed."
  \<^item> \<open>Interest_applied i b\<close>: "Interest of Rp\<open>i\<close> applied. New balance: Rp\<open>b\<close>"\<close>

datatype message =
    Amount_must_be_positive
  | Amount_must_be_in_multiples
  | Insufficient_funds
  | Daily_withdrawal_limit_exceeded
  | Successfully_withdrawn decimal
  | Successfully_deposited decimal
  | Recipient_account_not_found
  | Cannot_transfer_to_your_own_account
  | Successfully_transferred decimal string
  | Incorrect_old_PIN
  | PIN_successfully_changed
  | Interest_applied decimal decimal

text \<open>What \<open>authenticate\<close> prints on the console before it returns \<open>False\<close>:
  "Account locked. Please try again in \<open>m\<close> minutes", "User not found." or
  "Login failed. \<open>r\<close> attempt(s) remaining before temporary lockout."\<close>

datatype console = Account_locked int | User_not_found | Login_failed int

subsection \<open>Strings and decimals\<close>

definition isspace :: "char \<Rightarrow> bool" where
  "isspace c \<longleftrightarrow> c \<in> {CHR 0x09, CHR 0x0A, CHR 0x0B, CHR 0x0C, CHR 0x0D,
                     CHR 0x1C, CHR 0x1D, CHR 0x1E, CHR 0x1F, CHR 0x20}"

definition strip :: "string \<Rightarrow> string" where
  "strip s = rev (dropWhile isspace (rev (dropWhile isspace s)))"

definition upper_char :: "char \<Rightarrow> char" where
  "upper_char c =
     (case map_of (zip ''abcdefghijklmnopqrstuvwxyz'' ''ABCDEFGHIJKLMNOPQRSTUVWXYZ'') c of
        None \<Rightarrow> c
      | Some C \<Rightarrow> C)"

definition upper :: "string \<Rightarrow> string" where
  "upper s = map upper_char s"

text \<open>\<open>a % b\<close> on \<open>Decimal\<close>: the remainder takes the sign of the dividend, the quotient
  is truncated towards zero. The divisor is the constant 50000 wherever the code uses it.\<close>

definition dec_rem :: "decimal \<Rightarrow> decimal \<Rightarrow> decimal" where
  "dec_rem a b = a - b * of_int (if 0 \<le> a / b then \<lfloor>a / b\<rfloor> else \<lceil>a / b\<rceil>)"

subsection \<open>Construction\<close>

definition hash_password :: "(string \<Rightarrow> string) \<Rightarrow> string \<Rightarrow> string" where
  "hash_password sha256 password = sha256 (strip password)"

definition default_data :: "(string \<Rightarrow> string) \<Rightarrow> (string \<times> string \<times> decimal) list" where
  "default_data sha256 =
     [(''ATA'', hash_password sha256 ''8830'', 100000),
      (''AISYAH'', hash_password sha256 ''8790'', 50000),
      (''EZRA DEBY'', hash_password sha256 ''9086'', 200000)]"

fun load_rows :: "(string \<times> string \<times> decimal) list \<Rightarrow> atm_state \<Rightarrow> atm_state" where
  "load_rows [] s = s"
| "load_rows ((username, pw_hash, sal) # rows) s =
     (let k = Some (upper (strip username)) in
      load_rows rows
        (s\<lparr>accounts := (accounts s)(k \<mapsto> \<lparr>password_hash = pw_hash, saldo = sal\<rparr>),
           daily_totals := (daily_totals s)(k \<mapsto>
              [''withdrawal'' \<mapsto> Map.empty, ''deposit'' \<mapsto> Map.empty,
               ''transfer'' \<mapsto> Map.empty])\<rparr>))"

definition load_initial_data ::
  "(string \<Rightarrow> string) \<Rightarrow> (string \<times> string \<times> decimal) list option \<Rightarrow> atm_state \<Rightarrow> atm_state"
where
  "load_initial_data sha256 initial_data s =
     load_rows (case initial_data of None \<Rightarrow> default_data sha256 | Some rows \<Rightarrow> rows) s"

definition init :: "(string \<Rightarrow> string) \<Rightarrow> (string \<times> string \<times> decimal) list option \<Rightarrow> atm_state" where
  "init sha256 initial_data =
     load_initial_data sha256 initial_data
       \<lparr>daily_totals = Map.empty, accounts = Map.empty, transaction_history = Map.empty,
        failed_attempts = Map.empty, session_active = False, current_user = None\<rparr>"

subsection \<open>Authentication\<close>

definition handle_failed_attempt :: "datetime \<Rightarrow> string \<Rightarrow> atm_state \<Rightarrow> console \<times> atm_state" where
  "handle_failed_attempt now username s =
     (let attempts = (case failed_attempts s username of
                        Some (n, _) \<Rightarrow> n + 1
                      | None \<Rightarrow> 1)
      in (Login_failed (max 0 (3 - attempts)),
          s\<lparr>failed_attempts := (failed_attempts s)(username \<mapsto> (attempts, now))\<rparr>))"

text \<open>The first block of \<open>authenticate\<close>: the check of the cooling period. It returns
  the console line when the account is locked, and the state with the counter reset when
  the period is over.\<close>

definition cooling_check :: "datetime \<Rightarrow> string \<Rightarrow> atm_state \<Rightarrow> console option \<times> atm_state" where
  "cooling_check now username s =
     (case failed_attempts s username of
        None \<Rightarrow> (None, s)
      | Some (attempts, last_attempt) \<Rightarrow>
          if attempts \<ge> 3 then
            (let time_diff = now - last_attempt in
             if time_diff < 300 then (Some (Account_locked (5 - \<lfloor>time_diff / 60\<rfloor>)), s)
             else (None, s\<lparr>failed_attempts := (failed_attempts s)(username \<mapsto> (0, now))\<rparr>))
          else (None, s))"

definition authenticate ::
  "(string \<Rightarrow> string) \<Rightarrow> datetime \<Rightarrow> string \<Rightarrow> string \<Rightarrow> atm_state
     \<Rightarrow> (bool \<times> console option) \<times> atm_state"
where
  "authenticate sha256 now username0 password s =
     (let username = upper (strip username0) in
      case cooling_check now username s of
        (Some line, s1) \<Rightarrow> ((False, Some line), s1)
      | (None, s1) \<Rightarrow>
          (case accounts s1 (Some username) of
             None \<Rightarrow> ((False, Some User_not_found), s1)
           | Some acc \<Rightarrow>
               if hash_password sha256 password = password_hash acc then
                 ((True, None),
                  s1\<lparr>failed_attempts := (failed_attempts s1)(username \<mapsto> (0, now)),
                     session_active := True, current_user := Some username\<rparr>)
               else (case handle_failed_attempt now username s1 of
                       (line, s2) \<Rightarrow> ((False, Some line), s2))))"

definition logout :: "atm_state \<Rightarrow> atm_state" where
  "logout s = (if session_active s then s\<lparr>session_active := False, current_user := None\<rparr> else s)"

subsection \<open>Helpers of the transaction methods\<close>

definition assert_session :: "atm_state \<Rightarrow> unit outcome" where
  "assert_session s =
     (if \<not> session_active s \<or> current_user s = None then Raise SecurityError else Return ())"

definition check_balance :: "atm_state \<Rightarrow> decimal outcome" where
  "check_balance s =
     (case assert_session s of
        Raise e \<Rightarrow> Raise e
      | Return _ \<Rightarrow>
          (case accounts s (current_user s) of
             None \<Rightarrow> Raise KeyError
           | Some acc \<Rightarrow> Return (saldo acc)))"

definition update_daily_total :: "date \<Rightarrow> string \<Rightarrow> decimal \<Rightarrow> atm_state \<Rightarrow> unit outcome \<times> atm_state" where
  "update_daily_total today trans_type amt s =
     (case daily_totals s (current_user s) of
        None \<Rightarrow> (Raise KeyError, s)
      | Some per_type \<Rightarrow>
          (case per_type trans_type of
             None \<Rightarrow> (Raise KeyError, s)
           | Some user_totals \<Rightarrow>
               (Return (),
                s\<lparr>daily_totals := (daily_totals s)(current_user s \<mapsto>
                     per_type(trans_type \<mapsto>
                       user_totals(today \<mapsto>
                         (case user_totals today of None \<Rightarrow> 0 | Some v \<Rightarrow> v) + amt)))\<rparr>)))"

definition get_daily_total :: "date \<Rightarrow> string \<Rightarrow> atm_state \<Rightarrow> decimal outcome" where
  "get_daily_total today trans_type s =
     (case daily_totals s (current_user s) of
        None \<Rightarrow> Raise KeyError
      | Some per_type \<Rightarrow>
          (case per_type trans_type of
             None \<Rightarrow> Raise KeyError
           | Some user_totals \<Rightarrow>
               Return (case user_totals today of None \<Rightarrow> 0 | Some v \<Rightarrow> v)))"

definition log_transaction :: "transaction \<Rightarrow> atm_state \<Rightarrow> atm_state" where
  "log_transaction tr s =
     (let h = (if current_user s \<notin> dom (transaction_history s)
               then (transaction_history s)(current_user s \<mapsto> [])
               else transaction_history s)
      in s\<lparr>transaction_history :=
             h(current_user s \<mapsto> (case h (current_user s) of None \<Rightarrow> [] | Some ts \<Rightarrow> ts) @ [tr])\<rparr>)"

text \<open>The statement \<open>self.accounts[self.current_user]['saldo'] += delta\<close>.\<close>

definition add_saldo :: "key \<Rightarrow> decimal \<Rightarrow> atm_state \<Rightarrow> unit outcome \<times> atm_state" where
  "add_saldo k delta s =
     (case accounts s k of
        None \<Rightarrow> (Raise KeyError, s)
      | Some acc \<Rightarrow>
          (Return (), s\<lparr>accounts := (accounts s)(k \<mapsto> acc\<lparr>saldo := saldo acc + delta\<rparr>)\<rparr>))"

subsection \<open>The transaction methods\<close>

text \<open>The parameter of \<open>withdraw\<close>, \<open>deposit\<close> and \<open>transfer\<close> is declared a
  \<open>Decimal\<close>, and \<open>Decimal(amount)\<close> returns a \<open>Decimal\<close> as it is: the branch that
  answers "Invalid amount" is not taken for a value of the declared type.\<close>

definition withdraw ::
  "datetime \<Rightarrow> date \<Rightarrow> decimal \<Rightarrow> atm_state \<Rightarrow> (bool \<times> message) outcome \<times> atm_state"
where
  "withdraw now today amt s =
     (case assert_session s of
        Raise e \<Rightarrow> (Raise e, s)
      | Return _ \<Rightarrow>
          if amt \<le> 0 then (Return (False, Amount_must_be_positive), s)
          else if dec_rem amt 50000 \<noteq> 0 then (Return (False, Amount_must_be_in_multiples), s)
          else
            (case check_balance s of
               Raise e \<Rightarrow> (Raise e, s)
             | Return current_balance \<Rightarrow>
                 if amt > current_balance then (Return (False, Insufficient_funds), s)
                 else
                   (case get_daily_total today ''withdrawal'' s of
                      Raise e \<Rightarrow> (Raise e, s)
                    | Return daily \<Rightarrow>
                        if daily + amt > 5000000
                        then (Return (False, Daily_withdrawal_limit_exceeded), s)
                        else
                          (case add_saldo (current_user s) (- amt) s of
                             (Raise e, s1) \<Rightarrow> (Raise e, s1)
                           | (Return _, s1) \<Rightarrow>
                               (case update_daily_total today ''withdrawal'' amt s1 of
                                  (Raise e, s2) \<Rightarrow> (Raise e, s2)
                                | (Return _, s2) \<Rightarrow>
                                    (case check_balance s2 of
                                       Raise e \<Rightarrow> (Raise e, s2)
                                     | Return b \<Rightarrow>
                                         (Return (True, Successfully_withdrawn amt),
                                          log_transaction
                                            \<lparr>timestamp = now, ttype = ''withdrawal'',
                                             amount = amt, balance_after = b,
                                             recipient = None\<rparr> s2)))))))"

definition deposit ::
  "datetime \<Rightarrow> date \<Rightarrow> decimal \<Rightarrow> atm_state \<Rightarrow> (bool \<times> message) outcome \<times> atm_state"
where
  "deposit now today amt s =
     (case assert_session s of
        Raise e \<Rightarrow> (Raise e, s)
      | Return _ \<Rightarrow>
          if amt \<le> 0 then (Return (False, Amount_must_be_positive), s)
          else
            (case add_saldo (current_user s) amt s of
               (Raise e, s1) \<Rightarrow> (Raise e, s1)
             | (Return _, s1) \<Rightarrow>
                 (case update_daily_total today ''deposit'' amt s1 of
                    (Raise e, s2) \<Rightarrow> (Raise e, s2)
                  | (Return _, s2) \<Rightarrow>
                      (case check_balance s2 of
                         Raise e \<Rightarrow> (Raise e, s2)
                       | Return b \<Rightarrow>
                           (Return (True, Successfully_deposited amt),
                            log_transaction
                              \<lparr>timestamp = now, ttype = ''deposit'', amount = amt,
                               balance_after = b, recipient = None\<rparr> s2)))))"

definition transfer ::
  "datetime \<Rightarrow> date \<Rightarrow> string \<Rightarrow> decimal \<Rightarrow> atm_state
     \<Rightarrow> (bool \<times> message) outcome \<times> atm_state"
where
  "transfer now today recipient0 amt s =
     (case assert_session s of
        Raise e \<Rightarrow> (Raise e, s)
      | Return _ \<Rightarrow>
          (let rcp = upper (strip recipient0) in
           if Some rcp \<notin> dom (accounts s) then (Return (False, Recipient_account_not_found), s)
           else if Some rcp = current_user s
           then (Return (False, Cannot_transfer_to_your_own_account), s)
           else
             (case withdraw now today amt s of
                (Raise e, s1) \<Rightarrow> (Raise e, s1)
              | (Return (success, msg), s1) \<Rightarrow>
                  if \<not> success then (Return (False, msg), s1)
                  else
                    (case add_saldo (Some rcp) amt s1 of
                       (Raise e, s2) \<Rightarrow> (Raise e, s2)
                     | (Return _, s2) \<Rightarrow>
                         (case update_daily_total today ''transfer'' amt s2 of
                            (Raise e, s3) \<Rightarrow> (Raise e, s3)
                          | (Return _, s3) \<Rightarrow>
                              (case check_balance s3 of
                                 Raise e \<Rightarrow> (Raise e, s3)
                               | Return b \<Rightarrow>
                                   (Return (True, Successfully_transferred amt rcp),
                                    log_transaction
                                      \<lparr>timestamp = now, ttype = ''transfer'', amount = amt,
                                       balance_after = b, recipient = Some rcp\<rparr> s3)))))))"

definition change_pin ::
  "(string \<Rightarrow> string) \<Rightarrow> string \<Rightarrow> string \<Rightarrow> atm_state \<Rightarrow> (bool \<times> message) outcome \<times> atm_state"
where
  "change_pin sha256 old_pin new_pin s =
     (case assert_session s of
        Raise e \<Rightarrow> (Raise e, s)
      | Return _ \<Rightarrow>
          (case accounts s (current_user s) of
             None \<Rightarrow> (Raise KeyError, s)
           | Some acc \<Rightarrow>
               if hash_password sha256 old_pin \<noteq> password_hash acc
               then (Return (False, Incorrect_old_PIN), s)
               else
                 (Return (True, PIN_successfully_changed),
                  s\<lparr>accounts := (accounts s)(current_user s \<mapsto>
                       acc\<lparr>password_hash := hash_password sha256 new_pin\<rparr>)\<rparr>)))"

definition simulate_interest ::
  "datetime \<Rightarrow> decimal \<Rightarrow> atm_state \<Rightarrow> (bool \<times> message) outcome \<times> atm_state"
where
  "simulate_interest now interest_rate s =
     (case assert_session s of
        Raise e \<Rightarrow> (Raise e, s)
      | Return _ \<Rightarrow>
          (case check_balance s of
             Raise e \<Rightarrow> (Raise e, s)
           | Return current_balance \<Rightarrow>
               (let interest = current_balance * interest_rate in
                case add_saldo (current_user s) interest s of
                  (Raise e, s1) \<Rightarrow> (Raise e, s1)
                | (Return _, s1) \<Rightarrow>
                    (case check_balance s1 of
                       Raise e \<Rightarrow> (Raise e, s1)
                     | Return b \<Rightarrow>
                         (case accounts s1 (current_user s1) of
                            None \<Rightarrow> (Raise KeyError, s1)
                          | Some acc \<Rightarrow>
                              (Return (True, Interest_applied interest (saldo acc)),
                               log_transaction
                                 \<lparr>timestamp = now, ttype = ''interest'', amount = interest,
                                  balance_after = b, recipient = None\<rparr> s1))))))"


subsection \<open>Observers used in the statements\<close>

definition balance :: "atm_state \<Rightarrow> key \<Rightarrow> decimal" where
  "balance s k = (case accounts s k of None \<Rightarrow> 0 | Some acc \<Rightarrow> saldo acc)"


definition history :: "atm_state \<Rightarrow> key \<Rightarrow> transaction list" where
  "history s k = (case transaction_history s k of None \<Rightarrow> [] | Some ts \<Rightarrow> ts)"

definition attempts_of :: "atm_state \<Rightarrow> string \<Rightarrow> int" where
  "attempts_of s username = (case failed_attempts s username of None \<Rightarrow> 0 | Some (n, _) \<Rightarrow> n)"

text \<open>The account of \<open>username\<close> is in its cooling period at time \<open>now\<close>.\<close>

definition locked :: "atm_state \<Rightarrow> string \<Rightarrow> datetime \<Rightarrow> bool" where
  "locked s username now \<longleftrightarrow>
     (case failed_attempts s username of
        None \<Rightarrow> False
      | Some (attempts, last_attempt) \<Rightarrow> attempts \<ge> 3 \<and> now - last_attempt < 300)"

text \<open>An account is provisioned when it has its entry in \<open>accounts\<close> and its three
  dictionaries of daily totals, as \<open>_load_initial_data\<close> creates them together.\<close>

definition provisioned :: "atm_state \<Rightarrow> key \<Rightarrow> bool" where
  "provisioned s k \<longleftrightarrow>
     accounts s k \<noteq> None \<and>
     (case daily_totals s k of
        None \<Rightarrow> False
      | Some per_type \<Rightarrow>
          per_type ''withdrawal'' \<noteq> None \<and> per_type ''deposit'' \<noteq> None \<and>
          per_type ''transfer'' \<noteq> None)"

text \<open>A session of user \<open>u\<close> is open.\<close>

definition ready :: "atm_state \<Rightarrow> string \<Rightarrow> bool" where
  "ready s u \<longleftrightarrow> session_active s \<and> current_user s = Some u \<and> provisioned s (Some u)"

text \<open>The states the object can be in: every account is provisioned, no account has the
  key \<open>None\<close>, and an open session belongs to an account.\<close>

definition wf_state :: "atm_state \<Rightarrow> bool" where
  "wf_state s \<longleftrightarrow>
     (\<forall>k. accounts s k \<noteq> None \<longrightarrow> provisioned s k) \<and>
     accounts s None = None \<and>
     (session_active s \<longrightarrow> accounts s (current_user s) \<noteq> None) \<and>
     (\<not> session_active s \<longrightarrow> current_user s = None)"


text \<open>Closed examples need a function in the place of SHA-256; the identity stands in.\<close>

definition plain_digest :: "string \<Rightarrow> string" where
  "plain_digest p = p"

text \<open>The state after \<open>ATMSystem()\<close> and a login of ATA at time 0, used in the closed
  examples.\<close>

definition ata_session :: atm_state where
  "ata_session = snd (authenticate plain_digest 0 ''ATA'' ''8830'' (init plain_digest None))"


subsection \<open>Sequences of calls\<close>

text \<open>The caller invokes the methods one after another on the same object and goes on
  after a \<open>False\<close> and after an exception, as the menu loop does. \<open>run\<close> is the state
  after a list of calls, each with the clock readings it sees.\<close>

datatype call =
    Authenticate datetime string string
  | Logout
  | Withdraw datetime date decimal
  | Deposit datetime date decimal
  | Transfer datetime date string decimal
  | Change_pin string string
  | Simulate_interest datetime decimal

fun perform :: "(string \<Rightarrow> string) \<Rightarrow> call \<Rightarrow> atm_state \<Rightarrow> atm_state" where
  "perform sha256 (Authenticate now username password) s =
     snd (authenticate sha256 now username password s)"
| "perform sha256 Logout s = logout s"
| "perform sha256 (Withdraw now today amt) s = snd (withdraw now today amt s)"
| "perform sha256 (Deposit now today amt) s = snd (deposit now today amt s)"
| "perform sha256 (Transfer now today recipient0 amt) s =
     snd (transfer now today recipient0 amt s)"
| "perform sha256 (Change_pin old_pin new_pin) s = snd (change_pin sha256 old_pin new_pin s)"
| "perform sha256 (Simulate_interest now interest_rate) s =
     snd (simulate_interest now interest_rate s)"

fun run :: "(string \<Rightarrow> string) \<Rightarrow> call list \<Rightarrow> atm_state \<Rightarrow> atm_state" where
  "run sha256 [] s = s"
| "run sha256 (c # cs) s = run sha256 cs (perform sha256 c s)"



section \<open>Basic facts\<close>

lemma dec_rem_eq_0_iff: "b \<noteq> 0 \<Longrightarrow> dec_rem a b = 0 \<longleftrightarrow> (\<exists>k::int. a = b * of_int k)"
proof
  assume b: "b \<noteq> 0" and "dec_rem a b = 0"
  then have "a = b * of_int (if 0 \<le> a / b then \<lfloor>a / b\<rfloor> else \<lceil>a / b\<rceil>)"
    by (simp add: dec_rem_def)
  then show "\<exists>k::int. a = b * of_int k" ..
next
  assume b: "b \<noteq> 0" and "\<exists>k::int. a = b * of_int k"
  then obtain k :: int where k: "a = b * of_int k" by blast
  with b have "a / b = of_int k" by simp
  then show "dec_rem a b = 0"
    by (simp add: dec_rem_def k)
qed

lemma upper_strip_examples:
  "upper (strip ''ATA'') = ''ATA''" "upper (strip ''AISYAH'') = ''AISYAH''"
  "upper (strip ''EZRA DEBY'') = ''EZRA DEBY''" "upper (strip '' aisyah '') = ''AISYAH''"
  by (simp_all add: upper_def upper_char_def strip_def isspace_def)

lemma strip_examples:
  "strip ''8830'' = ''8830''" "strip ''8830 '' = ''8830''" "strip ''1234'' = ''1234''"
  "strip ''0000'' = ''0000''" "strip ''8790'' = ''8790''"
  by (simp_all add: strip_def isspace_def)

lemma init_default:
  "init sha256 None =
     \<lparr>daily_totals =
        [Some ''ATA'' \<mapsto> [''withdrawal'' \<mapsto> Map.empty, ''deposit'' \<mapsto> Map.empty,
                           ''transfer'' \<mapsto> Map.empty],
         Some ''AISYAH'' \<mapsto> [''withdrawal'' \<mapsto> Map.empty, ''deposit'' \<mapsto> Map.empty,
                              ''transfer'' \<mapsto> Map.empty],
         Some ''EZRA DEBY'' \<mapsto> [''withdrawal'' \<mapsto> Map.empty, ''deposit'' \<mapsto> Map.empty,
                                 ''transfer'' \<mapsto> Map.empty]],
      accounts =
        [Some ''ATA'' \<mapsto> \<lparr>password_hash = sha256 ''8830'', saldo = 100000\<rparr>,
         Some ''AISYAH'' \<mapsto> \<lparr>password_hash = sha256 ''8790'', saldo = 50000\<rparr>,
         Some ''EZRA DEBY'' \<mapsto> \<lparr>password_hash = sha256 ''9086'', saldo = 200000\<rparr>],
      transaction_history = Map.empty, failed_attempts = Map.empty,
      session_active = False, current_user = None\<rparr>"
  by (simp add: init_def load_initial_data_def default_data_def hash_password_def
      upper_def upper_char_def strip_def isspace_def Let_def)

lemma ata_session_eq:
  "ata_session = (init plain_digest None)
     \<lparr>failed_attempts := [''ATA'' \<mapsto> (0, 0)], session_active := True,
      current_user := Some ''ATA''\<rparr>"
  by (simp add: ata_session_def authenticate_def cooling_check_def init_default Let_def
      upper_strip_examples strip_examples hash_password_def)

lemma ata_session_fields:
  "session_active ata_session" "current_user ata_session = Some ''ATA''"
  "accounts ata_session (Some ''ATA'') = Some \<lparr>password_hash = ''8830'', saldo = 100000\<rparr>"
  "accounts ata_session (Some ''AISYAH'') = Some \<lparr>password_hash = ''8790'', saldo = 50000\<rparr>"
  "daily_totals ata_session (Some ''ATA'') =
     Some [''withdrawal'' \<mapsto> Map.empty, ''deposit'' \<mapsto> Map.empty, ''transfer'' \<mapsto> Map.empty]"
  "transaction_history ata_session = Map.empty"
  "failed_attempts ata_session = [''ATA'' \<mapsto> (0, 0)]"
  by (simp_all add: ata_session_eq init_default plain_digest_def)

lemma assert_session_Return:
  "session_active s \<Longrightarrow> current_user s = Some u \<Longrightarrow> assert_session s = Return ()"
  by (simp add: assert_session_def)


section \<open>The methods in closed form\<close>


lemma withdraw_eq:
  assumes "session_active s" "current_user s = Some u" "accounts s (Some u) = Some acc"
    "daily_totals s (Some u) = Some per" "per ''withdrawal'' = Some wd"
  shows "withdraw now today amt s =
    (if amt \<le> 0 then (Return (False, Amount_must_be_positive), s)
     else if dec_rem amt 50000 \<noteq> 0 then (Return (False, Amount_must_be_in_multiples), s)
     else if amt > saldo acc then (Return (False, Insufficient_funds), s)
     else if (case wd today of None \<Rightarrow> 0 | Some v \<Rightarrow> v) + amt > 5000000
       then (Return (False, Daily_withdrawal_limit_exceeded), s)
     else (Return (True, Successfully_withdrawn amt),
           s\<lparr>accounts := (accounts s)(Some u \<mapsto> acc\<lparr>saldo := saldo acc - amt\<rparr>),
             daily_totals := (daily_totals s)(Some u \<mapsto> per(''withdrawal'' \<mapsto>
                wd(today \<mapsto> (case wd today of None \<Rightarrow> 0 | Some v \<Rightarrow> v) + amt))),
             transaction_history := (transaction_history s)(Some u \<mapsto>
                history s (Some u) @
                [\<lparr>timestamp = now, ttype = ''withdrawal'', amount = amt,
                  balance_after = saldo acc - amt, recipient = None\<rparr>])\<rparr>))"
  using assms
  by (simp add: withdraw_def assert_session_def check_balance_def get_daily_total_def
      add_saldo_def update_daily_total_def log_transaction_def Let_def domIff history_def
      split: option.splits)

lemma withdraw_ready:
  assumes "withdraw now today amt s = (Return (True, m), s')"
  shows "\<exists>u acc per wd. session_active s \<and> current_user s = Some u
     \<and> accounts s (Some u) = Some acc
     \<and> daily_totals s (Some u) = Some per \<and> per ''withdrawal'' = Some wd"
proof -
  have a: "session_active s \<and> current_user s \<noteq> None"
    using assms by (cases "session_active s \<and> current_user s \<noteq> None")
      (auto simp: withdraw_def assert_session_def)
  then obtain u where u: "current_user s = Some u" by auto
  have b: "accounts s (Some u) \<noteq> None"
    using assms a u by (cases "accounts s (Some u)")
      (auto simp: withdraw_def assert_session_def check_balance_def split: if_splits)
  then obtain acc where acc: "accounts s (Some u) = Some acc" by auto
  have c: "daily_totals s (Some u) \<noteq> None"
    using assms a u acc by (cases "daily_totals s (Some u)")
      (auto simp: withdraw_def assert_session_def check_balance_def get_daily_total_def split: if_splits)
  then obtain per where per: "daily_totals s (Some u) = Some per" by auto
  have d: "per ''withdrawal'' \<noteq> None"
    using assms a u acc per by (cases "per ''withdrawal''")
      (auto simp: withdraw_def assert_session_def check_balance_def get_daily_total_def split: if_splits)
  with a u acc per show ?thesis by auto
qed


lemma deposit_eq:
  assumes "session_active s" "current_user s = Some u" "accounts s (Some u) = Some acc"
    "daily_totals s (Some u) = Some per" "per ''deposit'' = Some dp"
  shows "deposit now today amt s =
    (if amt \<le> 0 then (Return (False, Amount_must_be_positive), s)
     else (Return (True, Successfully_deposited amt),
           s\<lparr>accounts := (accounts s)(Some u \<mapsto> acc\<lparr>saldo := saldo acc + amt\<rparr>),
             daily_totals := (daily_totals s)(Some u \<mapsto> per(''deposit'' \<mapsto>
                dp(today \<mapsto> (case dp today of None \<Rightarrow> 0 | Some v \<Rightarrow> v) + amt))),
             transaction_history := (transaction_history s)(Some u \<mapsto>
                history s (Some u) @
                [\<lparr>timestamp = now, ttype = ''deposit'', amount = amt,
                  balance_after = saldo acc + amt, recipient = None\<rparr>])\<rparr>))"
  using assms
  by (simp add: deposit_def assert_session_def check_balance_def
      add_saldo_def update_daily_total_def log_transaction_def Let_def domIff history_def
      split: option.splits)


lemma deposit_ready:
  assumes "deposit now today amt s = (Return (True, m), s')"
  shows "\<exists>u acc per dp. session_active s \<and> current_user s = Some u
     \<and> accounts s (Some u) = Some acc
     \<and> daily_totals s (Some u) = Some per \<and> per ''deposit'' = Some dp"
  using assms
  unfolding deposit_def assert_session_def check_balance_def add_saldo_def update_daily_total_def
  by (auto split: if_splits option.splits outcome.splits prod.splits)


lemma transfer_eq:
  assumes "session_active s" "current_user s = Some u" "accounts s (Some u) = Some acc"
    "daily_totals s (Some u) = Some per" "per ''withdrawal'' = Some wd"
    "per ''transfer'' = Some tf"
    "accounts s (Some (upper (strip recipient0))) = Some racc" "upper (strip recipient0) \<noteq> u"
  shows "transfer now today recipient0 amt s =
    (if amt \<le> 0 then (Return (False, Amount_must_be_positive), s)
     else if dec_rem amt 50000 \<noteq> 0 then (Return (False, Amount_must_be_in_multiples), s)
     else if amt > saldo acc then (Return (False, Insufficient_funds), s)
     else if (case wd today of None \<Rightarrow> 0 | Some v \<Rightarrow> v) + amt > 5000000
       then (Return (False, Daily_withdrawal_limit_exceeded), s)
     else (Return (True, Successfully_transferred amt (upper (strip recipient0))),
           s\<lparr>accounts := (accounts s)
                (Some u \<mapsto> acc\<lparr>saldo := saldo acc - amt\<rparr>,
                 Some (upper (strip recipient0)) \<mapsto> racc\<lparr>saldo := saldo racc + amt\<rparr>),
             daily_totals := (daily_totals s)(Some u \<mapsto> per
                (''withdrawal'' \<mapsto> wd(today \<mapsto> (case wd today of None \<Rightarrow> 0 | Some v \<Rightarrow> v) + amt),
                 ''transfer'' \<mapsto> tf(today \<mapsto> (case tf today of None \<Rightarrow> 0 | Some v \<Rightarrow> v) + amt))),
             transaction_history := (transaction_history s)(Some u \<mapsto>
                history s (Some u) @
                [\<lparr>timestamp = now, ttype = ''withdrawal'', amount = amt,
                  balance_after = saldo acc - amt, recipient = None\<rparr>,
                 \<lparr>timestamp = now, ttype = ''transfer'', amount = amt,
                  balance_after = saldo acc - amt,
                  recipient = Some (upper (strip recipient0))\<rparr>])\<rparr>))"
  using assms
  by (simp add: transfer_def withdraw_eq[OF assms(1-5)] assert_session_def check_balance_def
      add_saldo_def update_daily_total_def log_transaction_def Let_def domIff history_def
      fun_upd_twist split: option.splits)


lemma transfer_ready:
  assumes "transfer now today recipient0 amt s = (Return (True, m), s')"
  shows "\<exists>u acc per wd tf racc. session_active s \<and> current_user s = Some u
     \<and> accounts s (Some u) = Some acc
     \<and> daily_totals s (Some u) = Some per \<and> per ''withdrawal'' = Some wd
     \<and> per ''transfer'' = Some tf
     \<and> accounts s (Some (upper (strip recipient0))) = Some racc
     \<and> upper (strip recipient0) \<noteq> u"
proof -
  have a: "session_active s \<and> current_user s \<noteq> None"
    using assms by (cases "session_active s \<and> current_user s \<noteq> None")
      (auto simp: transfer_def assert_session_def)
  then obtain u where u: "current_user s = Some u" by auto
  have r: "accounts s (Some (upper (strip recipient0))) \<noteq> None \<and> upper (strip recipient0) \<noteq> u"
    using assms a u
    by (auto simp: transfer_def assert_session_def Let_def domIff split: if_splits)
  then obtain racc where racc: "accounts s (Some (upper (strip recipient0))) = Some racc" by auto
  obtain r1 s1 where w: "withdraw now today amt s = (r1, s1)" by (cases "withdraw now today amt s")
  have w1: "\<exists>m1. r1 = Return (True, m1)"
    using assms a u r w
    by (auto simp: transfer_def assert_session_def Let_def domIff split: if_splits outcome.splits)
  then obtain m1 where m1: "withdraw now today amt s = (Return (True, m1), s1)" using w by auto
  from withdraw_ready[OF m1] u obtain acc per wd where
    p: "accounts s (Some u) = Some acc" "daily_totals s (Some u) = Some per"
       "per ''withdrawal'' = Some wd" by auto
  have t: "per ''transfer'' \<noteq> None"
  proof
    assume n: "per ''transfer'' = None"
    have "fst (transfer now today recipient0 amt s) \<noteq> Return (True, m)"
      using a u r racc p n
      by (simp add: transfer_def withdraw_eq[of s u acc per wd] assert_session_def
          add_saldo_def update_daily_total_def Let_def domIff)
    with assms show False by simp
  qed
  with a u r racc p show ?thesis by auto
qed

lemma change_pin_eq:
  assumes "session_active s" "current_user s = Some u" "accounts s (Some u) = Some acc"
  shows "change_pin sha256 old_pin new_pin s =
    (if sha256 (strip old_pin) \<noteq> password_hash acc then (Return (False, Incorrect_old_PIN), s)
     else (Return (True, PIN_successfully_changed),
           s\<lparr>accounts := (accounts s)(Some u \<mapsto> acc\<lparr>password_hash := sha256 (strip new_pin)\<rparr>)\<rparr>))"
  using assms by (simp add: change_pin_def assert_session_def hash_password_def)

lemma change_pin_ready:
  assumes "change_pin sha256 old_pin new_pin s = (Return (b, m), s')"
  shows "\<exists>u acc. session_active s \<and> current_user s = Some u \<and> accounts s (Some u) = Some acc"
  using assms
  by (auto simp: change_pin_def assert_session_def split: if_splits option.splits)

lemma simulate_interest_eq:
  assumes "session_active s" "current_user s = Some u" "accounts s (Some u) = Some acc"
  shows "simulate_interest now interest_rate s =
     (Return (True, Interest_applied (saldo acc * interest_rate)
                      (saldo acc + saldo acc * interest_rate)),
      s\<lparr>accounts := (accounts s)(Some u \<mapsto>
            acc\<lparr>saldo := saldo acc + saldo acc * interest_rate\<rparr>),
        transaction_history := (transaction_history s)(Some u \<mapsto>
           history s (Some u) @
           [\<lparr>timestamp = now, ttype = ''interest'', amount = saldo acc * interest_rate,
             balance_after = saldo acc + saldo acc * interest_rate, recipient = None\<rparr>])\<rparr>)"
  using assms
  by (simp add: simulate_interest_def assert_session_def check_balance_def add_saldo_def
      log_transaction_def Let_def domIff history_def split: option.splits)

lemma simulate_interest_ready:
  assumes "simulate_interest now interest_rate s = (Return (b, m), s')"
  shows "\<exists>u acc. session_active s \<and> current_user s = Some u \<and> accounts s (Some u) = Some acc"
  using assms
  by (auto simp: simulate_interest_def assert_session_def check_balance_def
      split: if_splits option.splits outcome.splits)




section \<open>Withdrawals that are not a multiple of 50,000\<close>




section \<open>Failures change nothing\<close>




section \<open>Successful calls in closed form\<close>

lemma withdraw_True:
  assumes "withdraw now today amt s = (Return (True, m), s')"
  obtains u acc per wd where "session_active s" "current_user s = Some u"
    "accounts s (Some u) = Some acc" "daily_totals s (Some u) = Some per"
    "per ''withdrawal'' = Some wd" "0 < amt" "dec_rem amt 50000 = 0" "amt \<le> saldo acc"
    "(case wd today of None \<Rightarrow> 0 | Some v \<Rightarrow> v) + amt \<le> 5000000"
    "m = Successfully_withdrawn amt"
    "s' = s\<lparr>accounts := (accounts s)(Some u \<mapsto> acc\<lparr>saldo := saldo acc - amt\<rparr>),
             daily_totals := (daily_totals s)(Some u \<mapsto> per(''withdrawal'' \<mapsto>
                wd(today \<mapsto> (case wd today of None \<Rightarrow> 0 | Some v \<Rightarrow> v) + amt))),
             transaction_history := (transaction_history s)(Some u \<mapsto>
                history s (Some u) @
                [\<lparr>timestamp = now, ttype = ''withdrawal'', amount = amt,
                  balance_after = saldo acc - amt, recipient = None\<rparr>])\<rparr>"
proof -
  from withdraw_ready[OF assms] obtain u acc per wd where
    p: "session_active s" "current_user s = Some u" "accounts s (Some u) = Some acc"
       "daily_totals s (Some u) = Some per" "per ''withdrawal'' = Some wd" by blast
  from assms show ?thesis
    unfolding withdraw_eq[OF p]
    by (intro that[OF p]) (simp_all split: if_splits)
qed

lemma deposit_True:
  assumes "deposit now today amt s = (Return (True, m), s')"
  obtains u acc per dp where "session_active s" "current_user s = Some u"
    "accounts s (Some u) = Some acc" "daily_totals s (Some u) = Some per"
    "per ''deposit'' = Some dp" "0 < amt"
    "m = Successfully_deposited amt"
    "s' = s\<lparr>accounts := (accounts s)(Some u \<mapsto> acc\<lparr>saldo := saldo acc + amt\<rparr>),
             daily_totals := (daily_totals s)(Some u \<mapsto> per(''deposit'' \<mapsto>
                dp(today \<mapsto> (case dp today of None \<Rightarrow> 0 | Some v \<Rightarrow> v) + amt))),
             transaction_history := (transaction_history s)(Some u \<mapsto>
                history s (Some u) @
                [\<lparr>timestamp = now, ttype = ''deposit'', amount = amt,
                  balance_after = saldo acc + amt, recipient = None\<rparr>])\<rparr>"
proof -
  from deposit_ready[OF assms] obtain u acc per dp where
    p: "session_active s" "current_user s = Some u" "accounts s (Some u) = Some acc"
       "daily_totals s (Some u) = Some per" "per ''deposit'' = Some dp" by blast
  from assms show ?thesis
    unfolding deposit_eq[OF p]
    by (intro that[OF p]) (simp_all split: if_splits)
qed

lemma transfer_True:
  assumes "transfer now today rcp amt s = (Return (True, m), s')"
  obtains u acc per wd tf racc where "session_active s" "current_user s = Some u"
    "accounts s (Some u) = Some acc" "daily_totals s (Some u) = Some per"
    "per ''withdrawal'' = Some wd" "per ''transfer'' = Some tf"
    "accounts s (Some (upper (strip rcp))) = Some racc" "upper (strip rcp) \<noteq> u"
    "0 < amt" "dec_rem amt 50000 = 0" "amt \<le> saldo acc"
    "(case wd today of None \<Rightarrow> 0 | Some v \<Rightarrow> v) + amt \<le> 5000000"
    "m = Successfully_transferred amt (upper (strip rcp))"
    "s' = s\<lparr>accounts := (accounts s)
                (Some u \<mapsto> acc\<lparr>saldo := saldo acc - amt\<rparr>,
                 Some (upper (strip rcp)) \<mapsto> racc\<lparr>saldo := saldo racc + amt\<rparr>),
             daily_totals := (daily_totals s)(Some u \<mapsto> per
                (''withdrawal'' \<mapsto> wd(today \<mapsto> (case wd today of None \<Rightarrow> 0 | Some v \<Rightarrow> v) + amt),
                 ''transfer'' \<mapsto> tf(today \<mapsto> (case tf today of None \<Rightarrow> 0 | Some v \<Rightarrow> v) + amt))),
             transaction_history := (transaction_history s)(Some u \<mapsto>
                history s (Some u) @
                [\<lparr>timestamp = now, ttype = ''withdrawal'', amount = amt,
                  balance_after = saldo acc - amt, recipient = None\<rparr>,
                 \<lparr>timestamp = now, ttype = ''transfer'', amount = amt,
                  balance_after = saldo acc - amt,
                  recipient = Some (upper (strip rcp))\<rparr>])\<rparr>"
proof -
  from transfer_ready[OF assms] obtain u acc per wd tf racc where
    p: "session_active s" "current_user s = Some u" "accounts s (Some u) = Some acc"
       "daily_totals s (Some u) = Some per" "per ''withdrawal'' = Some wd"
       "per ''transfer'' = Some tf"
       "accounts s (Some (upper (strip rcp))) = Some racc"
       "upper (strip rcp) \<noteq> u" by blast
  from assms show ?thesis
    unfolding transfer_eq[OF p]
    by (intro that[OF p]) (simp_all split: if_splits)
qed


lemma change_pin_True:
  assumes "change_pin sha256 old_pin new_pin s = (Return (True, m), s')"
  obtains u acc where "session_active s" "current_user s = Some u"
    "accounts s (Some u) = Some acc" "sha256 (strip old_pin) = password_hash acc"
    "s' = s\<lparr>accounts := (accounts s)(Some u \<mapsto> acc\<lparr>password_hash := sha256 (strip new_pin)\<rparr>)\<rparr>"
proof -
  from change_pin_ready[OF assms] obtain u acc where
    p: "session_active s" "current_user s = Some u" "accounts s (Some u) = Some acc" by blast
  from assms show ?thesis
    unfolding change_pin_eq[OF p]
    by (intro that[OF p]) (simp_all split: if_splits)
qed

lemma simulate_interest_True:
  assumes "simulate_interest now interest_rate s = (Return (b, m), s')"
  obtains u acc where "session_active s" "current_user s = Some u"
    "accounts s (Some u) = Some acc"
    "s' = s\<lparr>accounts := (accounts s)(Some u \<mapsto>
            acc\<lparr>saldo := saldo acc + saldo acc * interest_rate\<rparr>),
        transaction_history := (transaction_history s)(Some u \<mapsto>
           history s (Some u) @
           [\<lparr>timestamp = now, ttype = ''interest'', amount = saldo acc * interest_rate,
             balance_after = saldo acc + saldo acc * interest_rate, recipient = None\<rparr>])\<rparr>"
proof -
  from simulate_interest_ready[OF assms] obtain u acc where
    p: "session_active s" "current_user s = Some u" "accounts s (Some u) = Some acc" by blast
  from assms show ?thesis
    unfolding simulate_interest_eq[OF p]
    by (intro that[OF p]) simp_all
qed

section \<open>Records appended by the successful methods\<close>

text \<open>Claim C1 says that a successful transfer appends exactly one record. \<open>transfer\<close>
  calls \<open>withdraw\<close>, which logs its own record of type withdrawal, and then logs the
  record of type transfer: the sender's history grows by two records.\<close>

theorem one_record_counterexample:
  "fst (transfer 0 0 ''AISYAH'' 50000 ata_session)
     = Return (True, Successfully_transferred 50000 ''AISYAH'') \<and>
   history ata_session (Some ''ATA'') = [] \<and>
   history (snd (transfer 0 0 ''AISYAH'' 50000 ata_session)) (Some ''ATA'') =
     [\<lparr>timestamp = 0, ttype = ''withdrawal'', amount = 50000, balance_after = 50000,
       recipient = None\<rparr>,
      \<lparr>timestamp = 0, ttype = ''transfer'', amount = 50000, balance_after = 50000,
       recipient = Some ''AISYAH''\<rparr>]"
proof -
  have "\<exists>k::int. (50000::rat) = 50000 * of_int k" by (rule exI[of _ 1]) simp
  then have d: "dec_rem 50000 50000 = 0" using dec_rem_eq_0_iff[of 50000 50000] by simp
  show ?thesis
    by (simp add: transfer_eq[of ata_session "''ATA''"] ata_session_fields
        upper_strip_examples d history_def)
qed

text \<open>Claim C1, amended: a successful \<open>withdraw\<close>, \<open>deposit\<close> or
  \<open>simulate_interest\<close> appends exactly one record to the history of the current user,
  \<open>change_pin\<close> appends none, and a successful \<open>transfer\<close> appends two, a withdrawal
  record without recipient followed by a transfer record with the recipient; the
  histories of all other accounts, the recipient's included, are unchanged.\<close>

theorem records_appended:
  "(withdraw now today amt s = (Return (True, m), s') \<longrightarrow>
      history s' (current_user s) = history s (current_user s) @
        [\<lparr>timestamp = now, ttype = ''withdrawal'', amount = amt,
          balance_after = balance s' (current_user s), recipient = None\<rparr>] \<and>
      (\<forall>k. k \<noteq> current_user s \<longrightarrow> transaction_history s' k = transaction_history s k)) \<and>
   (deposit now today amt s = (Return (True, m), s') \<longrightarrow>
      history s' (current_user s) = history s (current_user s) @
        [\<lparr>timestamp = now, ttype = ''deposit'', amount = amt,
          balance_after = balance s' (current_user s), recipient = None\<rparr>] \<and>
      (\<forall>k. k \<noteq> current_user s \<longrightarrow> transaction_history s' k = transaction_history s k)) \<and>
   (simulate_interest now interest_rate s = (Return (True, m), s') \<longrightarrow>
      history s' (current_user s) = history s (current_user s) @
        [\<lparr>timestamp = now, ttype = ''interest'',
          amount = balance s (current_user s) * interest_rate,
          balance_after = balance s' (current_user s), recipient = None\<rparr>] \<and>
      (\<forall>k. k \<noteq> current_user s \<longrightarrow> transaction_history s' k = transaction_history s k)) \<and>
   (change_pin sha256 old_pin new_pin s = (Return (True, m), s') \<longrightarrow>
      transaction_history s' = transaction_history s) \<and>
   (transfer now today rcp amt s = (Return (True, m), s') \<longrightarrow>
      history s' (current_user s) = history s (current_user s) @
        [\<lparr>timestamp = now, ttype = ''withdrawal'', amount = amt,
          balance_after = balance s' (current_user s), recipient = None\<rparr>,
         \<lparr>timestamp = now, ttype = ''transfer'', amount = amt,
          balance_after = balance s' (current_user s),
          recipient = Some (upper (strip rcp))\<rparr>] \<and>
      (\<forall>k. k \<noteq> current_user s \<longrightarrow> transaction_history s' k = transaction_history s k))"
proof -
  have w: "withdraw now today amt s = (Return (True, m), s') \<longrightarrow>
      history s' (current_user s) = history s (current_user s) @
        [\<lparr>timestamp = now, ttype = ''withdrawal'', amount = amt,
          balance_after = balance s' (current_user s), recipient = None\<rparr>] \<and>
      (\<forall>k. k \<noteq> current_user s \<longrightarrow> transaction_history s' k = transaction_history s k)"
    by (rule impI, elim withdraw_True) (simp add: history_def balance_def)
  have d: "deposit now today amt s = (Return (True, m), s') \<longrightarrow>
      history s' (current_user s) = history s (current_user s) @
        [\<lparr>timestamp = now, ttype = ''deposit'', amount = amt,
          balance_after = balance s' (current_user s), recipient = None\<rparr>] \<and>
      (\<forall>k. k \<noteq> current_user s \<longrightarrow> transaction_history s' k = transaction_history s k)"
    by (rule impI, elim deposit_True) (simp add: history_def balance_def)
  have i: "simulate_interest now interest_rate s = (Return (True, m), s') \<longrightarrow>
      history s' (current_user s) = history s (current_user s) @
        [\<lparr>timestamp = now, ttype = ''interest'',
          amount = balance s (current_user s) * interest_rate,
          balance_after = balance s' (current_user s), recipient = None\<rparr>] \<and>
      (\<forall>k. k \<noteq> current_user s \<longrightarrow> transaction_history s' k = transaction_history s k)"
    by (rule impI, elim simulate_interest_True) (simp add: history_def balance_def)
  have c: "change_pin sha256 old_pin new_pin s = (Return (True, m), s') \<longrightarrow>
      transaction_history s' = transaction_history s"
    by (rule impI, elim change_pin_True) simp
  have t: "transfer now today rcp amt s = (Return (True, m), s') \<longrightarrow>
      history s' (current_user s) = history s (current_user s) @
        [\<lparr>timestamp = now, ttype = ''withdrawal'', amount = amt,
          balance_after = balance s' (current_user s), recipient = None\<rparr>,
         \<lparr>timestamp = now, ttype = ''transfer'', amount = amt,
          balance_after = balance s' (current_user s),
          recipient = Some (upper (strip rcp))\<rparr>] \<and>
      (\<forall>k. k \<noteq> current_user s \<longrightarrow> transaction_history s' k = transaction_history s k)"
    by (rule impI, elim transfer_True) (simp add: history_def balance_def)
  show ?thesis
    by (rule conjI[OF w conjI[OF d conjI[OF i conjI[OF c t]]]])
qed


lemma dec_rem_50000: "dec_rem 50000 50000 = 0"
proof -
  have "\<exists>k::int. (50000::rat) = 50000 * of_int k" by (rule exI[of _ 1]) simp
  then show ?thesis using dec_rem_eq_0_iff[of 50000 50000] by simp
qed

theorem records_appended_witness:
  "fst (transfer 0 0 ''AISYAH'' 50000 ata_session)
     = Return (True, Successfully_transferred 50000 ''AISYAH'') \<and>
   history (snd (transfer 0 0 ''AISYAH'' 50000 ata_session)) (Some ''ATA'') =
     history ata_session (Some ''ATA'') @
     [\<lparr>timestamp = 0, ttype = ''withdrawal'', amount = 50000,
       balance_after = balance (snd (transfer 0 0 ''AISYAH'' 50000 ata_session)) (Some ''ATA''),
       recipient = None\<rparr>,
      \<lparr>timestamp = 0, ttype = ''transfer'', amount = 50000,
       balance_after = balance (snd (transfer 0 0 ''AISYAH'' 50000 ata_session)) (Some ''ATA''),
       recipient = Some ''AISYAH''\<rparr>] \<and>
   transaction_history (snd (transfer 0 0 ''AISYAH'' 50000 ata_session)) (Some ''AISYAH'') =
     transaction_history ata_session (Some ''AISYAH'') \<and>
   fst (withdraw 0 0 50000 ata_session) = Return (True, Successfully_withdrawn 50000) \<and>
   history (snd (withdraw 0 0 50000 ata_session)) (Some ''ATA'') =
     history ata_session (Some ''ATA'') @
     [\<lparr>timestamp = 0, ttype = ''withdrawal'', amount = 50000,
       balance_after = balance (snd (withdraw 0 0 50000 ata_session)) (Some ''ATA''),
       recipient = None\<rparr>]"
proof -
  have t: "fst (transfer 0 0 ''AISYAH'' 50000 ata_session)
     = Return (True, Successfully_transferred 50000 ''AISYAH'')"
    by (simp add: transfer_eq[of ata_session "''ATA''"] ata_session_fields
        upper_strip_examples dec_rem_50000)
  then have t': "transfer 0 0 ''AISYAH'' 50000 ata_session =
      (Return (True, Successfully_transferred 50000 ''AISYAH''),
       snd (transfer 0 0 ''AISYAH'' 50000 ata_session))"
    by (metis prod.collapse)
  have w: "fst (withdraw 0 0 50000 ata_session) = Return (True, Successfully_withdrawn 50000)"
    by (simp add: withdraw_eq[of ata_session "''ATA''"] ata_session_fields dec_rem_50000)
  then have w': "withdraw 0 0 50000 ata_session =
      (Return (True, Successfully_withdrawn 50000), snd (withdraw 0 0 50000 ata_session))"
    by (metis prod.collapse)
  from t w
    records_appended[where s = ata_session and now = 0 and today = 0 and amt = 50000
      and rcp = "''AISYAH''" and m = "Successfully_transferred 50000 ''AISYAH''"
      and s' = "snd (transfer 0 0 ''AISYAH'' 50000 ata_session)"]
    records_appended[where s = ata_session and now = 0 and today = 0 and amt = 50000
      and m = "Successfully_withdrawn 50000"
      and s' = "snd (withdraw 0 0 50000 ata_session)"]
    t' w'
  show ?thesis
    by (simp add: ata_session_fields upper_strip_examples)
qed

section \<open>A transfer moves money, it makes none\<close>





section \<open>Withdrawals in an open session\<close>

lemma readyE:
  assumes "ready s u"
  obtains acc per wd dp tf where "session_active s" "current_user s = Some u"
    "accounts s (Some u) = Some acc" "daily_totals s (Some u) = Some per"
    "per ''withdrawal'' = Some wd" "per ''deposit'' = Some dp" "per ''transfer'' = Some tf"
  using assms by (auto simp: ready_def provisioned_def split: option.splits)




section \<open>The daily limit of withdrawals\<close>







section \<open>The balance through each method\<close>






lemma add_saldo_current_user:
  "add_saldo k' d s = (r, s') \<Longrightarrow> current_user s' = current_user s"
  by (auto simp: add_saldo_def split: option.splits)












section \<open>Balances stay non-negative\<close>





section \<open>The three outcomes of a login\<close>

lemma authenticate_locked:
  assumes "locked s (upper (strip username)) now"
  shows "\<exists>last. authenticate sha256 now username password s =
     ((False, Some (Account_locked (5 - \<lfloor>(now - last) / 60\<rfloor>))), s) \<and>
     (\<exists>n. failed_attempts s (upper (strip username)) = Some (n, last))"
  using assms
  by (auto simp: locked_def authenticate_def cooling_check_def Let_def split: option.splits)

lemma authenticate_right:
  assumes "\<not> locked s (upper (strip username)) now"
    "accounts s (Some (upper (strip username))) = Some acc"
    "hash_password sha256 password = password_hash acc"
  shows "authenticate sha256 now username password s =
     ((True, None),
      s\<lparr>failed_attempts := (failed_attempts s)(upper (strip username) \<mapsto> (0, now)),
        session_active := True, current_user := Some (upper (strip username))\<rparr>)"
  using assms
  by (auto simp: locked_def authenticate_def cooling_check_def Let_def split: option.splits)

lemma authenticate_wrong:
  assumes "\<not> locked s (upper (strip username)) now"
    "accounts s (Some (upper (strip username))) = Some acc"
    "hash_password sha256 password \<noteq> password_hash acc"
  shows "authenticate sha256 now username password s =
     (let n = (if attempts_of s (upper (strip username)) \<ge> 3 then 0
               else attempts_of s (upper (strip username))) + 1
      in ((False, Some (Login_failed (max 0 (3 - n)))),
          s\<lparr>failed_attempts := (failed_attempts s)(upper (strip username) \<mapsto> (n, now))\<rparr>))"
  using assms
  by (auto simp: locked_def authenticate_def cooling_check_def handle_failed_attempt_def
      attempts_of_def Let_def split: option.splits)

lemma authenticate_unknown:
  assumes "accounts s (Some (upper (strip username))) = None"
    "\<not> locked s (upper (strip username)) now"
  shows "fst (authenticate sha256 now username password s) = (False, Some User_not_found)"
  using assms
  by (auto simp: locked_def authenticate_def cooling_check_def Let_def split: option.splits)


lemma not_locked_few: "attempts_of s u < 3 \<Longrightarrow> \<not> locked s u now"
  by (auto simp: locked_def attempts_of_def split: option.splits)

lemma authenticate_wrong_few:
  assumes "attempts_of s (upper (strip username)) = n" "n < 3"
    "accounts s (Some (upper (strip username))) = Some acc"
    "hash_password sha256 password \<noteq> password_hash acc"
  shows "authenticate sha256 now username password s =
     ((False, Some (Login_failed (max 0 (2 - n)))),
      s\<lparr>failed_attempts := (failed_attempts s)(upper (strip username) \<mapsto> (n + 1, now))\<rparr>)"
proof -
  have "\<not> locked s (upper (strip username)) now"
    using assms(1,2) by (simp add: not_locked_few)
  from authenticate_wrong[OF this assms(3,4)] assms(1,2) show ?thesis
    by (simp add: Let_def)
qed

section \<open>Lockout after three failed logins\<close>

text \<open>Claim C5: for an existing account whose counter of failed attempts is zero (or
  absent), three logins in a row with a wrong PIN are each refused as a failed login and
  leave the counter at 3 with the time of the third; from then on a login at a time less
  than 300 seconds after the third failure is refused as locked whatever the PIN is, the
  right one included, and changes nothing; a login 300 seconds or more
  after the third failure finds the counter reset to zero: with the right PIN it
  succeeds, opens the session and leaves the counter at zero, with a wrong PIN it is
  refused as a failed login and leaves the counter at 1.\<close>

theorem three_failures_lock:
  assumes acc: "accounts s (Some (upper (strip username))) = Some acc"
    and fresh: "attempts_of s (upper (strip username)) = 0"
    and w1: "hash_password sha256 pa \<noteq> password_hash acc"
    and w2: "hash_password sha256 pb \<noteq> password_hash acc"
    and w3: "hash_password sha256 pc \<noteq> password_hash acc"
    and right: "hash_password sha256 p = password_hash acc"
    and sa: "sa = snd (authenticate sha256 ta username pa s)"
    and sb: "sb = snd (authenticate sha256 tb username pb sa)"
    and sc: "sc = snd (authenticate sha256 tc username pc sb)"
  shows "fst (authenticate sha256 ta username pa s) = (False, Some (Login_failed 2)) \<and>
    fst (authenticate sha256 tb username pb sa) = (False, Some (Login_failed 1)) \<and>
    fst (authenticate sha256 tc username pc sb) = (False, Some (Login_failed 0)) \<and>
    failed_attempts sc (upper (strip username)) = Some (3, tc) \<and>
    (\<forall>td q. td - tc < 300 \<longrightarrow>
       authenticate sha256 td username q sc =
         ((False, Some (Account_locked (5 - \<lfloor>(td - tc) / 60\<rfloor>))), sc)) \<and>
    (\<forall>td. 300 \<le> td - tc \<longrightarrow>
       authenticate sha256 td username p sc =
         ((True, None),
          sc\<lparr>failed_attempts := (failed_attempts sc)(upper (strip username) \<mapsto> (0, td)),
             session_active := True, current_user := Some (upper (strip username))\<rparr>)) \<and>
    (\<forall>td q. 300 \<le> td - tc \<and> hash_password sha256 q \<noteq> password_hash acc \<longrightarrow>
       authenticate sha256 td username q sc =
         ((False, Some (Login_failed 2)),
          sc\<lparr>failed_attempts := (failed_attempts sc)(upper (strip username) \<mapsto> (1, td))\<rparr>))"
proof -
  let ?u = "upper (strip username)"
  have a1: "authenticate sha256 ta username pa s =
     ((False, Some (Login_failed 2)), s\<lparr>failed_attempts := (failed_attempts s)(?u \<mapsto> (1, ta))\<rparr>)"
    using authenticate_wrong_few[OF fresh _ acc w1, of ta] by simp
  then have e1: "sa = s\<lparr>failed_attempts := (failed_attempts s)(?u \<mapsto> (1, ta))\<rparr>"
    by (simp add: sa)
  have n1: "attempts_of sa ?u = 1" and acc1: "accounts sa (Some ?u) = Some acc"
    by (simp_all add: e1 attempts_of_def acc)
  have a2: "authenticate sha256 tb username pb sa =
     ((False, Some (Login_failed 1)), sa\<lparr>failed_attempts := (failed_attempts sa)(?u \<mapsto> (2, tb))\<rparr>)"
    using authenticate_wrong_few[OF n1 _ acc1 w2, of tb] by simp
  then have e2: "sb = sa\<lparr>failed_attempts := (failed_attempts sa)(?u \<mapsto> (2, tb))\<rparr>"
    by (simp add: sb)
  have n2: "attempts_of sb ?u = 2" and acc2: "accounts sb (Some ?u) = Some acc"
    by (simp_all add: e2 attempts_of_def acc1)
  have a3: "authenticate sha256 tc username pc sb =
     ((False, Some (Login_failed 0)), sb\<lparr>failed_attempts := (failed_attempts sb)(?u \<mapsto> (3, tc))\<rparr>)"
    using authenticate_wrong_few[OF n2 _ acc2 w3, of tc] by simp
  then have e3: "sc = sb\<lparr>failed_attempts := (failed_attempts sb)(?u \<mapsto> (3, tc))\<rparr>"
    by (simp add: sc)
  have f3: "failed_attempts sc ?u = Some (3, tc)" and acc3: "accounts sc (Some ?u) = Some acc"
    by (simp_all add: e3 acc2)
  have l: "\<forall>td q. td - tc < 300 \<longrightarrow>
       authenticate sha256 td username q sc =
         ((False, Some (Account_locked (5 - \<lfloor>(td - tc) / 60\<rfloor>))), sc)"
  proof (intro allI impI)
    fix td :: rat and q
    assume "td - tc < 300"
    then have "locked sc ?u td" by (simp add: locked_def f3)
    from authenticate_locked[OF this, of sha256 q] f3
    show "authenticate sha256 td username q sc =
         ((False, Some (Account_locked (5 - \<lfloor>(td - tc) / 60\<rfloor>))), sc)"
      by auto
  qed
  have r: "\<forall>td. 300 \<le> td - tc \<longrightarrow>
       authenticate sha256 td username p sc =
         ((True, None),
          sc\<lparr>failed_attempts := (failed_attempts sc)(?u \<mapsto> (0, td)),
             session_active := True, current_user := Some ?u\<rparr>)"
  proof (intro allI impI)
    fix td :: rat
    assume "300 \<le> td - tc"
    then have "\<not> locked sc ?u td" by (simp add: locked_def f3)
    from authenticate_right[OF this acc3 right]
    show "authenticate sha256 td username p sc =
         ((True, None),
          sc\<lparr>failed_attempts := (failed_attempts sc)(?u \<mapsto> (0, td)),
             session_active := True, current_user := Some ?u\<rparr>)" .
  qed
  have w: "\<forall>td q. 300 \<le> td - tc \<and> hash_password sha256 q \<noteq> password_hash acc \<longrightarrow>
       authenticate sha256 td username q sc =
         ((False, Some (Login_failed 2)),
          sc\<lparr>failed_attempts := (failed_attempts sc)(?u \<mapsto> (1, td))\<rparr>)"
  proof (intro allI impI)
    fix td :: rat and q
    assume h: "300 \<le> td - tc \<and> hash_password sha256 q \<noteq> password_hash acc"
    then have n: "\<not> locked sc ?u td" by (simp add: locked_def f3)
    have "attempts_of sc ?u = 3" by (simp add: attempts_of_def f3)
    with authenticate_wrong[OF n acc3, of sha256 q] h
    show "authenticate sha256 td username q sc =
         ((False, Some (Login_failed 2)),
          sc\<lparr>failed_attempts := (failed_attempts sc)(?u \<mapsto> (1, td))\<rparr>)"
      by (simp add: Let_def)
  qed
  from a1 a2 a3 f3 l r w show ?thesis by simp
qed


theorem three_failures_lock_witness:
  "accounts (init plain_digest None) (Some (upper (strip ''ata''))) =
     Some \<lparr>password_hash = ''8830'', saldo = 100000\<rparr> \<and>
   attempts_of (init plain_digest None) (upper (strip ''ata'')) = 0 \<and>
   hash_password plain_digest ''0000'' \<noteq> ''8830'' \<and>
   hash_password plain_digest ''8830'' = ''8830'' \<and>
   fst (authenticate plain_digest 0 ''ata'' ''0000'' (init plain_digest None)) =
     (False, Some (Login_failed 2)) \<and>
   failed_attempts
     (run plain_digest [Authenticate 0 ''ata'' ''0000'', Authenticate 10 ''ata'' ''0000'',
                        Authenticate 20 ''ata'' ''0000''] (init plain_digest None))
     ''ATA'' = Some (3, 20) \<and>
   fst (authenticate plain_digest 80 ''ata'' ''8830''
     (run plain_digest [Authenticate 0 ''ata'' ''0000'', Authenticate 10 ''ata'' ''0000'',
                        Authenticate 20 ''ata'' ''0000''] (init plain_digest None))) =
     (False, Some (Account_locked 4)) \<and>
   fst (authenticate plain_digest 320 ''ata'' ''8830''
     (run plain_digest [Authenticate 0 ''ata'' ''0000'', Authenticate 10 ''ata'' ''0000'',
                        Authenticate 20 ''ata'' ''0000''] (init plain_digest None))) =
     (True, None)"
proof -
  have u: "upper (strip ''ata'') = ''ATA''"
    by (simp add: upper_def upper_char_def strip_def isspace_def)
  have acc: "accounts (init plain_digest None) (Some (upper (strip ''ata''))) =
     Some \<lparr>password_hash = ''8830'', saldo = 100000\<rparr>"
    by (simp add: u init_default plain_digest_def)
  have fresh: "attempts_of (init plain_digest None) (upper (strip ''ata'')) = 0"
    by (simp add: u init_default attempts_of_def)
  have w: "hash_password plain_digest ''0000'' \<noteq>
      password_hash \<lparr>password_hash = ''8830'', saldo = 100000\<rparr>"
    by (simp add: hash_password_def plain_digest_def strip_examples)
  have r: "hash_password plain_digest ''8830'' =
      password_hash \<lparr>password_hash = ''8830'', saldo = 100000\<rparr>"
    by (simp add: hash_password_def plain_digest_def strip_examples)
  note T = three_failures_lock[OF acc fresh w w w r refl refl refl, of 0 10 20]
  have "(80::rat) - 20 < 300" "(300::rat) \<le> 320 - 20" by simp_all
  with T[THEN conjunct1]
    T[THEN conjunct2, THEN conjunct2, THEN conjunct2, THEN conjunct1]
    T[THEN conjunct2, THEN conjunct2, THEN conjunct2, THEN conjunct2, THEN conjunct1,
      rule_format, of 80 "''8830''"]
    T[THEN conjunct2, THEN conjunct2, THEN conjunct2, THEN conjunct2, THEN conjunct2,
      THEN conjunct1, rule_format, of 320]
    acc fresh w r
  show ?thesis by (simp add: u)
qed


section \<open>A second login replaces the session\<close>

text \<open>Claim C10: while a session of account \<open>a\<close> is open, a login of another existing
  account \<open>b\<close> with the right PIN (and \<open>b\<close> not in its cooling period) returns \<open>True\<close>
  and prints nothing; the session stays active and the current user becomes \<open>b\<close>,
  with no logout in between. Nothing else changes but the counter of \<open>b\<close>.\<close>

theorem second_login_rebinds_session:
  assumes "session_active s" and "current_user s = Some a"
    and "upper (strip username) \<noteq> a"
    and "accounts s (Some (upper (strip username))) = Some acc"
    and "hash_password sha256 password = password_hash acc"
    and "\<not> locked s (upper (strip username)) now"
  shows "authenticate sha256 now username password s =
     ((True, None),
      s\<lparr>failed_attempts := (failed_attempts s)(upper (strip username) \<mapsto> (0, now)),
        session_active := True, current_user := Some (upper (strip username))\<rparr>) \<and>
    session_active (snd (authenticate sha256 now username password s)) \<and>
    current_user (snd (authenticate sha256 now username password s))
      = Some (upper (strip username)) \<and>
    current_user (snd (authenticate sha256 now username password s)) \<noteq> current_user s \<and>
    accounts (snd (authenticate sha256 now username password s)) = accounts s \<and>
    daily_totals (snd (authenticate sha256 now username password s)) = daily_totals s \<and>
    transaction_history (snd (authenticate sha256 now username password s))
      = transaction_history s"
  using assms by (simp add: authenticate_right[OF assms(6,4,5)])

theorem second_login_rebinds_session_witness:
  "session_active ata_session \<and> current_user ata_session = Some ''ATA'' \<and>
   upper (strip '' aisyah '') \<noteq> ''ATA'' \<and>
   \<not> locked ata_session (upper (strip '' aisyah '')) 5 \<and>
   fst (authenticate plain_digest 5 '' aisyah '' ''8790'' ata_session) = (True, None) \<and>
   session_active (snd (authenticate plain_digest 5 '' aisyah '' ''8790'' ata_session)) \<and>
   current_user (snd (authenticate plain_digest 5 '' aisyah '' ''8790'' ata_session))
     = Some ''AISYAH''"
proof -
  have n: "upper (strip '' aisyah '') \<noteq> ''ATA''" by (simp add: upper_strip_examples)
  have acc: "accounts ata_session (Some (upper (strip '' aisyah ''))) =
      Some \<lparr>password_hash = ''8790'', saldo = 50000\<rparr>"
    by (simp add: upper_strip_examples ata_session_fields)
  have h: "hash_password plain_digest ''8790'' =
      password_hash \<lparr>password_hash = ''8790'', saldo = 50000\<rparr>"
    by (simp add: hash_password_def plain_digest_def strip_examples)
  have l: "\<not> locked ata_session (upper (strip '' aisyah '')) 5"
    by (simp add: locked_def upper_strip_examples ata_session_fields)
  from second_login_rebinds_session[OF ata_session_fields(1,2) n acc h l] n l
  show ?thesis by (simp add: ata_session_fields upper_strip_examples)
qed


lemma ata_three_failures:
  "run plain_digest [Authenticate 1 ''ATA'' ''0000'', Authenticate 2 ''ATA'' ''0000'',
                     Authenticate 3 ''ATA'' ''0000''] ata_session =
   ata_session\<lparr>failed_attempts := [''ATA'' \<mapsto> (3, 3)]\<rparr>"
  by (simp add: authenticate_def cooling_check_def handle_failed_attempt_def Let_def
      upper_strip_examples strip_examples hash_password_def plain_digest_def
      ata_session_fields)

text \<open>Whatever \<open>sha256\<close> is, the PIN \<open>'8830'\<close> still logs in after it has been changed
  to \<open>'8830 '\<close>: both strip to the same string.\<close>

lemma stripped_pins_collide:
  "fst (authenticate sha256 5 ''ATA'' ''8830''
     (snd (change_pin sha256 ''8830'' ''8830 ''
        (snd (authenticate sha256 0 ''ATA'' ''8830'' (init sha256 None)))))) = (True, None)"
  by (simp add: authenticate_def cooling_check_def change_pin_def assert_session_def
      init_default Let_def upper_strip_examples strip_examples hash_password_def)

section \<open>Changing the PIN\<close>

text \<open>Claim C9 says that after a change of PIN to a different new PIN a login with the
  new PIN succeeds and a login with the old PIN fails as a wrong credential. Both PINs
  are stripped before they are hashed, so the new PIN \<open>'8830 '\<close> differs from the old
  PIN \<open>'8830'\<close> and has the same hash: the login with the old PIN succeeds. And a
  session can be open while its account is in the cooling period (three failed logins
  made during the session): the login with the new PIN is then refused as locked.\<close>

theorem change_pin_counterexample:
  "''8830 '' \<noteq> ''8830'' \<and>
   session_active ata_session \<and> current_user ata_session = Some ''ATA'' \<and>
   fst (change_pin plain_digest ''8830'' ''8830 '' ata_session)
     = Return (True, PIN_successfully_changed) \<and>
   fst (authenticate plain_digest 5 ''ATA'' ''8830''
          (snd (change_pin plain_digest ''8830'' ''8830 '' ata_session))) = (True, None) \<and>
   ''1234'' \<noteq> ''8830'' \<and>
   session_active (run plain_digest [Authenticate 1 ''ATA'' ''0000'',
      Authenticate 2 ''ATA'' ''0000'', Authenticate 3 ''ATA'' ''0000''] ata_session) \<and>
   current_user (run plain_digest [Authenticate 1 ''ATA'' ''0000'',
      Authenticate 2 ''ATA'' ''0000'', Authenticate 3 ''ATA'' ''0000''] ata_session)
     = Some ''ATA'' \<and>
   fst (change_pin plain_digest ''8830'' ''1234''
          (run plain_digest [Authenticate 1 ''ATA'' ''0000'',
             Authenticate 2 ''ATA'' ''0000'', Authenticate 3 ''ATA'' ''0000''] ata_session))
     = Return (True, PIN_successfully_changed) \<and>
   fst (authenticate plain_digest 63 ''ATA'' ''1234''
          (snd (change_pin plain_digest ''8830'' ''1234''
             (run plain_digest [Authenticate 1 ''ATA'' ''0000'',
                Authenticate 2 ''ATA'' ''0000'', Authenticate 3 ''ATA'' ''0000''] ata_session))))
     = (False, Some (Account_locked 4))"
  unfolding ata_three_failures
  by (simp add: change_pin_eq[of _ "''ATA''"] ata_session_fields strip_examples plain_digest_def
      authenticate_def cooling_check_def Let_def upper_strip_examples hash_password_def)

text \<open>Claim C9, amended: with a session of \<open>u\<close> open and the hash of the stripped old PIN
  equal to the stored hash, \<open>change_pin\<close> returns \<open>True\<close>, stores the hash of the
  stripped new PIN and leaves the histories as they are; afterwards, at a time when the
  account is not in its cooling period, a login with the new PIN succeeds, and a login
  with the old PIN is refused as a failed login provided the two stripped PINs have
  different hashes. When the hash of the stripped old PIN differs from the stored hash,
  \<open>change_pin\<close> returns "Incorrect old PIN" and changes nothing.\<close>

theorem change_pin_then_login:
  assumes "session_active s" and "current_user s = Some u"
    and "accounts s (Some u) = Some acc"
  shows "(hash_password sha256 old_pin = password_hash acc \<longrightarrow>
      change_pin sha256 old_pin new_pin s =
        (Return (True, PIN_successfully_changed),
         s\<lparr>accounts := (accounts s)(Some u \<mapsto>
              acc\<lparr>password_hash := hash_password sha256 new_pin\<rparr>)\<rparr>) \<and>
      transaction_history (snd (change_pin sha256 old_pin new_pin s)) = transaction_history s \<and>
      (upper (strip username) = u \<and> \<not> locked s u now \<longrightarrow>
         fst (authenticate sha256 now username new_pin
                (snd (change_pin sha256 old_pin new_pin s))) = (True, None)) \<and>
      (upper (strip username) = u \<and> \<not> locked s u now \<and>
       hash_password sha256 old_pin \<noteq> hash_password sha256 new_pin \<longrightarrow>
         (\<exists>r. fst (authenticate sha256 now username old_pin
                     (snd (change_pin sha256 old_pin new_pin s)))
               = (False, Some (Login_failed r))))) \<and>
    (hash_password sha256 old_pin \<noteq> password_hash acc \<longrightarrow>
      change_pin sha256 old_pin new_pin s = (Return (False, Incorrect_old_PIN), s))"
proof (intro conjI impI)
  assume h: "hash_password sha256 old_pin = password_hash acc"
  let ?s' = "s\<lparr>accounts := (accounts s)(Some u \<mapsto>
              acc\<lparr>password_hash := hash_password sha256 new_pin\<rparr>)\<rparr>"
  show c: "change_pin sha256 old_pin new_pin s = (Return (True, PIN_successfully_changed), ?s')"
    using h by (simp add: change_pin_eq[OF assms] hash_password_def)
  show "transaction_history (snd (change_pin sha256 old_pin new_pin s)) = transaction_history s"
    by (simp add: c)
  {
    assume a: "upper (strip username) = u \<and> \<not> locked s u now"
    then have l: "\<not> locked ?s' (upper (strip username)) now" by (simp add: locked_def)
    have acc': "accounts ?s' (Some (upper (strip username))) =
        Some (acc\<lparr>password_hash := hash_password sha256 new_pin\<rparr>)"
      using a by simp
    have "hash_password sha256 new_pin =
        password_hash (acc\<lparr>password_hash := hash_password sha256 new_pin\<rparr>)" by simp
    from authenticate_right[OF l acc' this]
    show "fst (authenticate sha256 now username new_pin
                (snd (change_pin sha256 old_pin new_pin s))) = (True, None)"
      by (simp add: c)
  }
  {
    assume a: "upper (strip username) = u \<and> \<not> locked s u now \<and>
       hash_password sha256 old_pin \<noteq> hash_password sha256 new_pin"
    then have l: "\<not> locked ?s' (upper (strip username)) now" by (simp add: locked_def)
    have acc': "accounts ?s' (Some (upper (strip username))) =
        Some (acc\<lparr>password_hash := hash_password sha256 new_pin\<rparr>)"
      using a by simp
    have "hash_password sha256 old_pin \<noteq>
        password_hash (acc\<lparr>password_hash := hash_password sha256 new_pin\<rparr>)"
      using a by simp
    from authenticate_wrong[OF l acc' this]
    show "\<exists>r. fst (authenticate sha256 now username old_pin
                     (snd (change_pin sha256 old_pin new_pin s)))
               = (False, Some (Login_failed r))"
      by (simp add: c Let_def)
  }
next
  assume "hash_password sha256 old_pin \<noteq> password_hash acc"
  then show "change_pin sha256 old_pin new_pin s = (Return (False, Incorrect_old_PIN), s)"
    by (simp add: change_pin_eq[OF assms] hash_password_def)
qed


theorem change_pin_then_login_witness:
  "session_active ata_session \<and> current_user ata_session = Some ''ATA'' \<and>
   upper (strip ''ATA'') = ''ATA'' \<and> \<not> locked ata_session ''ATA'' 5 \<and>
   hash_password plain_digest ''8830'' \<noteq> hash_password plain_digest ''1234'' \<and>
   fst (change_pin plain_digest ''8830'' ''1234'' ata_session)
     = Return (True, PIN_successfully_changed) \<and>
   fst (authenticate plain_digest 5 ''ATA'' ''1234''
          (snd (change_pin plain_digest ''8830'' ''1234'' ata_session))) = (True, None) \<and>
   (\<exists>r. fst (authenticate plain_digest 5 ''ATA'' ''8830''
               (snd (change_pin plain_digest ''8830'' ''1234'' ata_session)))
         = (False, Some (Login_failed r))) \<and>
   change_pin plain_digest ''0000'' ''1234'' ata_session
     = (Return (False, Incorrect_old_PIN), ata_session)"
proof -
  have l: "\<not> locked ata_session ''ATA'' 5"
    by (simp add: locked_def ata_session_fields)
  have h: "hash_password plain_digest ''8830'' =
      password_hash \<lparr>password_hash = ''8830'', saldo = 100000\<rparr>"
    "hash_password plain_digest ''8830'' \<noteq> hash_password plain_digest ''1234''"
    "hash_password plain_digest ''0000'' \<noteq>
      password_hash \<lparr>password_hash = ''8830'', saldo = 100000\<rparr>"
    by (simp_all add: hash_password_def plain_digest_def strip_examples)
  have us: "upper (strip ''ATA'') = ''ATA''" by (simp add: upper_strip_examples)
  note T = change_pin_then_login[OF ata_session_fields(1,2,3), of plain_digest]
  note A = T[of "''8830''" "''1234''" "''ATA''" 5, THEN conjunct1, THEN mp, OF h(1)]
  have c: "fst (change_pin plain_digest ''8830'' ''1234'' ata_session)
     = Return (True, PIN_successfully_changed)"
    using A[THEN conjunct1] by simp
  have n: "fst (authenticate plain_digest 5 ''ATA'' ''1234''
          (snd (change_pin plain_digest ''8830'' ''1234'' ata_session))) = (True, None)"
    by (rule A[THEN conjunct2, THEN conjunct2, THEN conjunct1, THEN mp]) (simp add: us l)
  have o: "\<exists>r. fst (authenticate plain_digest 5 ''ATA'' ''8830''
               (snd (change_pin plain_digest ''8830'' ''1234'' ata_session)))
         = (False, Some (Login_failed r))"
    by (rule A[THEN conjunct2, THEN conjunct2, THEN conjunct2, THEN mp]) (simp add: us l h(2))
  have w: "change_pin plain_digest ''0000'' ''1234'' ata_session
     = (Return (False, Incorrect_old_PIN), ata_session)"
    by (rule T[of "''0000''" "''1234''" "''ATA''" 5, THEN conjunct2, THEN mp]) (rule h(3))
  show ?thesis
    using ata_session_fields(1,2) us l h(2) c n o w
    by blast
qed



section \<open>What is raised and what is returned\<close>





section \<open>The states the object reaches\<close>

lemma wf_ready:
  assumes "wf_state s" "session_active s"
  shows "\<exists>u. ready s u"
proof -
  from assms have a: "accounts s (current_user s) \<noteq> None" "accounts s None = None"
    by (simp_all add: wf_state_def)
  then obtain u where u: "current_user s = Some u" by (cases "current_user s") auto
  with assms a have "provisioned s (Some u)" by (simp add: wf_state_def)
  with assms u show ?thesis by (auto simp: ready_def)
qed

lemma load_rows_wf:
  assumes "wf_state s" "\<not> session_active s"
  shows "wf_state (load_rows rows s) \<and> \<not> session_active (load_rows rows s)"
  using assms
proof (induction rows arbitrary: s)
  case Nil
  then show ?case by simp
next
  case (Cons row rows)
  obtain username pw_hash sal where row: "row = (username, pw_hash, sal)" by (cases row)
  show ?case
    unfolding row load_rows.simps Let_def
    by (rule Cons.IH) (use Cons.prems in \<open>auto simp: wf_state_def provisioned_def\<close>)
qed

lemma wf_init: "wf_state (init sha256 initial_data)"
  unfolding init_def load_initial_data_def
  by (rule load_rows_wf[THEN conjunct1]) (simp_all add: wf_state_def)

lemma wf_authenticate:
  assumes "wf_state s"
  shows "wf_state (snd (authenticate sha256 now username password s)) \<and>
    dom (accounts (snd (authenticate sha256 now username password s))) = dom (accounts s)"
  using assms
  by (auto simp: authenticate_def cooling_check_def handle_failed_attempt_def Let_def
      wf_state_def provisioned_def split: option.splits prod.splits if_splits)

lemma wf_logout:
  "wf_state s \<Longrightarrow> wf_state (logout s) \<and> dom (accounts (logout s)) = dom (accounts s)"
  by (auto simp: logout_def wf_state_def provisioned_def)


lemma wf_withdraw:
  assumes "wf_state s"
  shows "wf_state (snd (withdraw now today amt s)) \<and>
    dom (accounts (snd (withdraw now today amt s))) = dom (accounts s)"
proof (cases "session_active s")
  case False
  with assms show ?thesis by (simp add: withdraw_def assert_session_def)
next
  case True
  with assms obtain u where "ready s u" using wf_ready by blast
  then obtain acc per wd dp tf where p:
    "session_active s" "current_user s = Some u" "accounts s (Some u) = Some acc"
    "daily_totals s (Some u) = Some per" "per ''withdrawal'' = Some wd"
    "per ''deposit'' = Some dp" "per ''transfer'' = Some tf"
    by (rule readyE)
  from assms p show ?thesis
    by (auto simp: withdraw_eq[OF p(1-5)] wf_state_def provisioned_def)
qed

lemma wf_deposit:
  assumes "wf_state s"
  shows "wf_state (snd (deposit now today amt s)) \<and>
    dom (accounts (snd (deposit now today amt s))) = dom (accounts s)"
proof (cases "session_active s")
  case False
  with assms show ?thesis by (simp add: deposit_def assert_session_def)
next
  case True
  with assms obtain u where "ready s u" using wf_ready by blast
  then obtain acc per wd dp tf where p:
    "session_active s" "current_user s = Some u" "accounts s (Some u) = Some acc"
    "daily_totals s (Some u) = Some per" "per ''withdrawal'' = Some wd"
    "per ''deposit'' = Some dp" "per ''transfer'' = Some tf"
    by (rule readyE)
  from assms p show ?thesis
    by (auto simp: deposit_eq[OF p(1-4) p(6)] wf_state_def provisioned_def)
qed

lemma wf_transfer:
  assumes "wf_state s"
  shows "wf_state (snd (transfer now today rcp amt s)) \<and>
    dom (accounts (snd (transfer now today rcp amt s))) = dom (accounts s)"
proof (cases "session_active s")
  case False
  with assms show ?thesis by (simp add: transfer_def assert_session_def)
next
  case True
  with assms obtain u where "ready s u" using wf_ready by blast
  then obtain acc per wd dp tf where p:
    "session_active s" "current_user s = Some u" "accounts s (Some u) = Some acc"
    "daily_totals s (Some u) = Some per" "per ''withdrawal'' = Some wd"
    "per ''deposit'' = Some dp" "per ''transfer'' = Some tf"
    by (rule readyE)
  show ?thesis
  proof (cases "accounts s (Some (upper (strip rcp)))")
    case None
    with p assms show ?thesis
      by (simp add: transfer_def assert_session_def Let_def domIff)
  next
    case (Some racc)
    show ?thesis
    proof (cases "upper (strip rcp) = u")
      case True
      with p Some assms show ?thesis
        by (simp add: transfer_def assert_session_def Let_def domIff)
    next
      case False
      from assms p Some False show ?thesis
        by (auto simp: transfer_eq[OF p(1-5) p(7) Some False] wf_state_def provisioned_def)
    qed
  qed
qed

lemma wf_change_pin:
  assumes "wf_state s"
  shows "wf_state (snd (change_pin sha256 old_pin new_pin s)) \<and>
    dom (accounts (snd (change_pin sha256 old_pin new_pin s))) = dom (accounts s)"
proof (cases "session_active s")
  case False
  with assms show ?thesis by (simp add: change_pin_def assert_session_def)
next
  case True
  with assms obtain u where "ready s u" using wf_ready by blast
  then obtain acc per wd dp tf where p:
    "session_active s" "current_user s = Some u" "accounts s (Some u) = Some acc"
    "daily_totals s (Some u) = Some per" "per ''withdrawal'' = Some wd"
    "per ''deposit'' = Some dp" "per ''transfer'' = Some tf"
    by (rule readyE)
  from assms p show ?thesis
    by (auto simp: change_pin_eq[OF p(1-3)] wf_state_def provisioned_def)
qed

lemma wf_simulate_interest:
  assumes "wf_state s"
  shows "wf_state (snd (simulate_interest now interest_rate s)) \<and>
    dom (accounts (snd (simulate_interest now interest_rate s))) = dom (accounts s)"
proof (cases "session_active s")
  case False
  with assms show ?thesis by (simp add: simulate_interest_def assert_session_def)
next
  case True
  with assms obtain u where "ready s u" using wf_ready by blast
  then obtain acc per wd dp tf where p:
    "session_active s" "current_user s = Some u" "accounts s (Some u) = Some acc"
    "daily_totals s (Some u) = Some per" "per ''withdrawal'' = Some wd"
    "per ''deposit'' = Some dp" "per ''transfer'' = Some tf"
    by (rule readyE)
  from assms p show ?thesis
    by (auto simp: simulate_interest_eq[OF p(1-3)] wf_state_def provisioned_def)
qed

lemma wf_perform:
  "wf_state s \<Longrightarrow>
     wf_state (perform sha256 c s) \<and> dom (accounts (perform sha256 c s)) = dom (accounts s)"
  by (cases c)
     (simp_all add: wf_authenticate wf_logout wf_withdraw wf_deposit wf_transfer
        wf_change_pin wf_simulate_interest)

text \<open>Every state the object reaches from its construction is well formed, whatever the
  seed and the calls are, and has the accounts of the seed. So in every such state with a
  session open the current user is an account with its daily totals, which is the
  hypothesis \<open>ready\<close> of the theorems, and the dictionary of accounts is finite.\<close>

lemma wf_run:
  "wf_state s \<Longrightarrow>
     wf_state (run sha256 cs s) \<and> dom (accounts (run sha256 cs s)) = dom (accounts s)"
proof (induction cs arbitrary: s)
  case Nil
  then show ?case by simp
next
  case (Cons c cs)
  from wf_perform[OF Cons.prems, of sha256 c] Cons.IH[of "perform sha256 c s"]
  show ?case by simp
qed

lemma reachable_ready:
  assumes "session_active (run sha256 cs (init sha256 initial_data))"
  shows "\<exists>u. ready (run sha256 cs (init sha256 initial_data)) u"
  using wf_ready[OF wf_run[OF wf_init, THEN conjunct1] assms] .

lemma load_rows_finite:
  "finite (dom (accounts s)) \<Longrightarrow> finite (dom (accounts (load_rows rows s)))"
  by (induction rows arbitrary: s) (auto simp: Let_def)

lemma reachable_finite: "finite (dom (accounts (run sha256 cs (init sha256 initial_data))))"
proof -
  have "finite (dom (accounts (init sha256 initial_data)))"
    unfolding init_def load_initial_data_def by (rule load_rows_finite) simp
  with wf_run[OF wf_init, THEN conjunct2, of sha256 cs sha256 initial_data]
  show ?thesis by simp
qed

end
